theory Spec2Isabelle
  imports Main "HOL-Library.AList"
begin

section \<open>Values, exceptions and effects\<close>

text \<open>
  The tools of \<^verbatim>\<open>servers/jira.py\<close> receive Python values, hand them to one method of the
  Jira client and serialise what comes back. Values that cross that boundary are the
  JSON-shaped ones: \<^verbatim>\<open>None\<close>, booleans, integers, strings, lists and dictionaries. A
  dictionary is an association list, since Python keeps the insertion order and
  \<^verbatim>\<open>json.dumps\<close> prints in that order.
\<close>

datatype json =
    JNull
  | JBool bool
  | JInt int
  | JString string
  | JArray "json list"
  | JObject "(string \<times> json) list"

text \<open>
  An exception is its class and its message (\<^verbatim>\<open>str(e)\<close>). The type ranges over the
  instances of \<^verbatim>\<open>Exception\<close>, which is what \<^verbatim>\<open>except Exception\<close> catches. Only the
  classes the tools tell apart are named; \<^verbatim>\<open>HTTPError\<close> is the one of
  \<^verbatim>\<open>requests.exceptions\<close>.
\<close>

datatype exn_class =
    ValueError
  | RuntimeError
  | MCPAtlassianAuthenticationError
  | OSError
  | HTTPError
  | OtherException

datatype exn = Exn (class_of: exn_class) (str: string)

datatype log_level = WARNING | ERROR

text \<open>
  What a tool does besides returning: it calls a method of the client (the method's name,
  the positional arguments, the keyword arguments) and it writes log records (level,
  message, and whether the traceback is attached as \<^verbatim>\<open>logger.exception\<close> and
  \<^verbatim>\<open>exc_info=True\<close> do).
\<close>

datatype event =
    ClientCall string "json list" "(string \<times> json) list"
  | Log log_level string bool

type_synonym 'a io = "event list \<times> (exn + 'a)"

fun is_client_call :: "event \<Rightarrow> bool" where
  "is_client_call (ClientCall _ _ _) = True"
| "is_client_call (Log _ _ _) = False"

definition client_calls :: "event list \<Rightarrow> event list" where
  "client_calls tr = filter is_client_call tr"

text \<open>
  The text a tool returns is \<^verbatim>\<open>json.dumps(obj, indent=2, ensure_ascii=False)\<close>. The
  serialiser is the standard library's; the model keeps the three arguments of the call.
\<close>

datatype json_text = Json_dumps (obj: json) (indent: nat) (ensure_ascii: bool)

section \<open>The client as the tools see it\<close>

text \<open>
  The model classes (\<^verbatim>\<open>JiraUser\<close>, the issue, the search result, a board, a sprint)
  reach the tools only through \<^verbatim>\<open>to_simplified_dict()\<close>, which yields a dictionary.
\<close>

datatype model = Model (to_simplified_dict: "(string \<times> json) list")

text \<open>
  A method of the client takes positional and keyword arguments and either raises or
  returns. The record has one field per method the tools call, named after the method
  with the prefix \<open>fetcher_\<close> (the tools carry the same names as several methods).
\<close>

type_synonym 'r client_method = "json list \<Rightarrow> (string \<times> json) list \<Rightarrow> exn + 'r"

record jira_fetcher =
  fetcher_get_user_profile_by_identifier :: "model client_method"
  fetcher_get_issue :: "model client_method"
  fetcher_search_issues :: "model client_method"
  fetcher_search_fields :: "json client_method"
  fetcher_get_project_issues :: "model client_method"
  fetcher_get_available_transitions :: "json client_method"
  fetcher_get_worklogs :: "json client_method"
  fetcher_download_issue_attachments :: "json client_method"
  fetcher_get_all_agile_boards_model :: "model list client_method"
  fetcher_get_board_issues :: "model client_method"
  fetcher_get_sprints_from_board :: "model list client_method"
  fetcher_get_sprint_issues :: "model client_method"
  fetcher_get_issue_link_types :: "json client_method"
  fetcher_create_issue :: "model client_method"
  fetcher_batch_create_issues :: "json client_method"
  fetcher_batch_get_changelogs :: "json client_method"

text \<open>
  \<^verbatim>\<open>ctx.request_context.lifespan_context\<close> is the shared \<^verbatim>\<open>MainAppContext\<close> or
  \<^verbatim>\<open>None\<close>; its \<^verbatim>\<open>jira\<close> attribute is the client or \<^verbatim>\<open>None\<close>.
\<close>

record main_app_context =
  jira :: "jira_fetcher option"

record request_context =
  lifespan_context :: "main_app_context option"

record mcp_context =
  request_context :: request_context

definition call :: "string \<Rightarrow> 'r client_method \<Rightarrow> json list \<Rightarrow> (string \<times> json) list \<Rightarrow> 'r io" where
  "call name m args kwargs = ([ClientCall name args kwargs], m args kwargs)"

section \<open>Argument handling\<close>

definition opt_str :: "string option \<Rightarrow> json" where
  "opt_str v = (case v of None \<Rightarrow> JNull | Some s \<Rightarrow> JString s)"

definition str_list :: "string list \<Rightarrow> json" where
  "str_list xs = JArray (map JString xs)"

text \<open>\<^verbatim>\<open>s.split(",")\<close>: the pieces between the commas, empty pieces kept.\<close>

fun split_comma :: "string \<Rightarrow> string list" where
  "split_comma [] = [[]]"
| "split_comma (c # cs) =
     (if c = CHR '','' then [] # split_comma cs
      else (case split_comma cs of
              [] \<Rightarrow> [[c]]
            | w # ws \<Rightarrow> (c # w) # ws))"

text \<open>
  \<^verbatim>\<open>s.strip()\<close> removes the white space of Python's \<^verbatim>\<open>str.isspace\<close> from both ends.
  A \<open>string\<close> holds the UTF-8 bytes of the Python string, so a white-space character
  is a sequence of one to three bytes.
\<close>

definition py_whitespace :: "string list" where
  "py_whitespace =
     [[CHR 0x09], [CHR 0x0A], [CHR 0x0B], [CHR 0x0C], [CHR 0x0D],
      [CHR 0x1C], [CHR 0x1D], [CHR 0x1E], [CHR 0x1F], [CHR 0x20],
      [CHR 0xC2, CHR 0x85], [CHR 0xC2, CHR 0xA0],
      [CHR 0xE1, CHR 0x9A, CHR 0x80],
      [CHR 0xE2, CHR 0x80, CHR 0x80], [CHR 0xE2, CHR 0x80, CHR 0x81],
      [CHR 0xE2, CHR 0x80, CHR 0x82], [CHR 0xE2, CHR 0x80, CHR 0x83],
      [CHR 0xE2, CHR 0x80, CHR 0x84], [CHR 0xE2, CHR 0x80, CHR 0x85],
      [CHR 0xE2, CHR 0x80, CHR 0x86], [CHR 0xE2, CHR 0x80, CHR 0x87],
      [CHR 0xE2, CHR 0x80, CHR 0x88], [CHR 0xE2, CHR 0x80, CHR 0x89],
      [CHR 0xE2, CHR 0x80, CHR 0x8A], [CHR 0xE2, CHR 0x80, CHR 0xA8],
      [CHR 0xE2, CHR 0x80, CHR 0xA9], [CHR 0xE2, CHR 0x80, CHR 0xAF],
      [CHR 0xE2, CHR 0x81, CHR 0x9F], [CHR 0xE3, CHR 0x80, CHR 0x80]]"

definition starts_with :: "string \<Rightarrow> string \<Rightarrow> bool" where
  "starts_with s p = (take (length p) s = p)"

fun lstrip_ws :: "string list \<Rightarrow> string \<Rightarrow> string" where
  "lstrip_ws ws [] = []"
| "lstrip_ws ws (c # cs) =
     (case filter (starts_with (c # cs)) ws of
        [] \<Rightarrow> c # cs
      | w # _ \<Rightarrow> lstrip_ws ws (drop (length w - 1) cs))"

definition lstrip :: "string \<Rightarrow> string" where
  "lstrip s = lstrip_ws py_whitespace s"

definition rstrip :: "string \<Rightarrow> string" where
  "rstrip s = rev (lstrip_ws (map rev py_whitespace) (rev s))"

definition strip :: "string \<Rightarrow> string" where
  "strip s = rstrip (lstrip s)"

text \<open>
  \<^verbatim>\<open>fields_list = fields\<close>, replaced by the stripped pieces when \<^verbatim>\<open>fields\<close> is a
  non-empty string other than \<^verbatim>\<open>"*all"\<close>.
\<close>

definition fields_list :: "string option \<Rightarrow> json" where
  "fields_list flds =
     (case flds of
        None \<Rightarrow> JNull
      | Some f \<Rightarrow>
          if f \<noteq> [] \<and> f \<noteq> ''*all'' then str_list (map strip (split_comma f))
          else JString f)"

text \<open>\<^verbatim>\<open>properties.split(",") if properties else None\<close>\<close>

definition properties_list :: "string option \<Rightarrow> json" where
  "properties_list properties =
     (case properties of
        None \<Rightarrow> JNull
      | Some p \<Rightarrow> if p \<noteq> [] then str_list (split_comma p) else JNull)"

text \<open>
  \<^verbatim>\<open>s.lower()\<close> and \<^verbatim>\<open>sub in s\<close>, used to look for \<^verbatim>\<open>"not found"\<close> in the message
  of a \<^verbatim>\<open>ValueError\<close>. \<open>lower\<close> maps the ASCII capitals and leaves the other bytes
  alone: no character outside ASCII has a lower case among the letters of
  \<^verbatim>\<open>"not found"\<close>, so the search sees what Python's sees.
\<close>

definition lower_char :: "char \<Rightarrow> char" where
  "lower_char c =
     (let n = (of_char c :: nat) in if 65 \<le> n \<and> n \<le> 90 then char_of (n + 32) else c)"

definition lower :: "string \<Rightarrow> string" where
  "lower s = map lower_char s"

fun contains :: "string \<Rightarrow> string \<Rightarrow> bool" where
  "contains [] sub = (sub = [])"
| "contains (c # cs) sub = (starts_with (c # cs) sub \<or> contains cs sub)"

definition quoted :: "string \<Rightarrow> string" where
  "quoted s = CHR 0x27 # s @ [CHR 0x27]"

section \<open>The tools\<close>

text \<open>
  Every tool is an \<^verbatim>\<open>async def\<close> registered with \<^verbatim>\<open>@jira_mcp.tool\<close>; its model takes
  the context and the arguments of the call (after the framework has filled in defaults
  and validated the bounds of the \<^verbatim>\<open>Field\<close> declarations) and yields the events in
  order and the exception raised or the text returned.
\<close>

text \<open>
  \<^verbatim>\<open>if not lifespan_ctx or not lifespan_ctx.jira: raise ValueError(...)\<close>, the opening of
  every tool but \<^verbatim>\<open>search\<close>.
\<close>

definition require_jira :: "mcp_context \<Rightarrow> exn + jira_fetcher" where
  "require_jira ctx =
     (case lifespan_context (request_context ctx) of
        None \<Rightarrow> Inl (Exn ValueError ''Jira client is not configured or available.'')
      | Some lifespan_ctx \<Rightarrow>
          (case jira lifespan_ctx of
             None \<Rightarrow> Inl (Exn ValueError ''Jira client is not configured or available.'')
           | Some j \<Rightarrow> Inr j))"

definition get_user_profile :: "mcp_context \<Rightarrow> string \<Rightarrow> string \<Rightarrow> json_text io" where
  "get_user_profile ctx user_identifier jira_pat =
     (case require_jira ctx of
        Inl e \<Rightarrow> ([], Inl e)
      | Inr j \<Rightarrow>
          (case call ''get_user_profile_by_identifier''
                  (fetcher_get_user_profile_by_identifier j)
                  [JString user_identifier] [(''jira_pat'', JString jira_pat)] of
             (tr, Inr user) \<Rightarrow>
               (tr, Inr (Json_dumps
                  (JObject [(''success'', JBool True),
                            (''user'', JObject (to_simplified_dict user))]) 2 False))
           | (tr, Inl e) \<Rightarrow>
               (let (log_level, error_message, logged) =
                      (if class_of e = ValueError \<and> contains (lower (str e)) ''not found''
                       then (WARNING, str e, [])
                       else if class_of e = MCPAtlassianAuthenticationError
                       then (ERROR, ''Authentication/Permission Error: '' @ str e, [])
                       else if class_of e = OSError \<or> class_of e = HTTPError
                       then (ERROR, ''Network or API Error: '' @ str e, [])
                       else (ERROR,
                             ''An unexpected error occurred while fetching the user profile.'',
                             [Log ERROR (''Unexpected error in get_user_profile for ''
                                         @ quoted user_identifier @ '':'') True]));
                    error_result = JObject [(''success'', JBool False),
                                            (''error'', JString (str e)),
                                            (''user_identifier'', JString user_identifier)]
                in (tr @ logged
                      @ [Log log_level (''get_user_profile failed for ''
                                        @ quoted user_identifier @ '': '' @ error_message) False],
                    Inr (Json_dumps error_result 2 False)))))"

definition get_issue ::
  "mcp_context \<Rightarrow> string \<Rightarrow> string \<Rightarrow> string option \<Rightarrow> string option \<Rightarrow> int
     \<Rightarrow> string option \<Rightarrow> bool \<Rightarrow> json_text io" where
  "get_issue ctx issue_key jira_pat flds expand comment_limit properties update_history =
     (case require_jira ctx of
        Inl e \<Rightarrow> ([], Inl e)
      | Inr j \<Rightarrow>
          (case call ''get_issue'' (fetcher_get_issue j) []
                  [(''issue_key'', JString issue_key),
                   (''fields'', fields_list flds),
                   (''expand'', opt_str expand),
                   (''comment_limit'', JInt comment_limit),
                   (''properties'', properties_list properties),
                   (''update_history'', JBool update_history),
                   (''jira_pat'', JString jira_pat)] of
             (tr, Inl e) \<Rightarrow> (tr, Inl e)
           | (tr, Inr issue) \<Rightarrow>
               (tr, Inr (Json_dumps (JObject (to_simplified_dict issue)) 2 False))))"

text \<open>
  \<^verbatim>\<open>search\<close> has its own opening (an error record and a \<^verbatim>\<open>RuntimeError\<close>), takes the
  token as \<^verbatim>\<open>JIRA_PERSONAL_TOKEN\<close> and does not hand it to \<^verbatim>\<open>search_issues\<close>; what the
  client raises is logged and raised again.
\<close>

definition search ::
  "mcp_context \<Rightarrow> string \<Rightarrow> string \<Rightarrow> string option \<Rightarrow> int \<Rightarrow> int \<Rightarrow> string option
     \<Rightarrow> string option \<Rightarrow> json_text io" where
  "search ctx jql JIRA_PERSONAL_TOKEN flds limit start_at projects_filter expand =
     (let error_msg = ''Jira client is not initialized in the server lifespan context.'';
          missing = ([Log ERROR error_msg False], Inl (Exn RuntimeError error_msg))
      in case lifespan_context (request_context ctx) of
           None \<Rightarrow> missing
         | Some lifespan_ctx \<Rightarrow>
             (case jira lifespan_ctx of
                None \<Rightarrow> missing
              | Some j \<Rightarrow>
                  (case call ''search_issues'' (fetcher_search_issues j) []
                          [(''jql'', JString jql),
                           (''fields'', fields_list flds),
                           (''limit'', JInt limit),
                           (''start'', JInt start_at),
                           (''expand'', opt_str expand),
                           (''projects_filter'', opt_str projects_filter)] of
                     (tr, Inr search_result) \<Rightarrow>
                       (tr, Inr (Json_dumps (JObject (to_simplified_dict search_result)) 2 False))
                   | (tr, Inl e) \<Rightarrow>
                       (tr @ [Log ERROR (''Error in jira_search tool: '' @ str e) True], Inl e))))"

definition search_fields ::
  "mcp_context \<Rightarrow> string \<Rightarrow> string \<Rightarrow> int \<Rightarrow> bool \<Rightarrow> json_text io" where
  "search_fields ctx jira_pat keyword limit refresh =
     (case require_jira ctx of
        Inl e \<Rightarrow> ([], Inl e)
      | Inr j \<Rightarrow>
          (case call ''search_fields'' (fetcher_search_fields j) [JString keyword]
                  [(''limit'', JInt limit),
                   (''refresh'', JBool refresh),
                   (''jira_pat'', JString jira_pat)] of
             (tr, Inl e) \<Rightarrow> (tr, Inl e)
           | (tr, Inr result) \<Rightarrow> (tr, Inr (Json_dumps result 2 False))))"

definition get_project_issues ::
  "mcp_context \<Rightarrow> string \<Rightarrow> string \<Rightarrow> int \<Rightarrow> int \<Rightarrow> json_text io" where
  "get_project_issues ctx project_key jira_pat limit start_at =
     (case require_jira ctx of
        Inl e \<Rightarrow> ([], Inl e)
      | Inr j \<Rightarrow>
          (case call ''get_project_issues'' (fetcher_get_project_issues j) []
                  [(''project_key'', JString project_key),
                   (''start'', JInt start_at),
                   (''limit'', JInt limit),
                   (''jira_pat'', JString jira_pat)] of
             (tr, Inl e) \<Rightarrow> (tr, Inl e)
           | (tr, Inr search_result) \<Rightarrow>
               (tr, Inr (Json_dumps (JObject (to_simplified_dict search_result)) 2 False))))"

definition get_transitions :: "mcp_context \<Rightarrow> string \<Rightarrow> string \<Rightarrow> json_text io" where
  "get_transitions ctx issue_key jira_pat =
     (case require_jira ctx of
        Inl e \<Rightarrow> ([], Inl e)
      | Inr j \<Rightarrow>
          (case call ''get_available_transitions'' (fetcher_get_available_transitions j)
                  [JString issue_key] [(''jira_pat'', JString jira_pat)] of
             (tr, Inl e) \<Rightarrow> (tr, Inl e)
           | (tr, Inr transitions) \<Rightarrow> (tr, Inr (Json_dumps transitions 2 False))))"

definition get_worklog :: "mcp_context \<Rightarrow> string \<Rightarrow> string \<Rightarrow> json_text io" where
  "get_worklog ctx issue_key jira_pat =
     (case require_jira ctx of
        Inl e \<Rightarrow> ([], Inl e)
      | Inr j \<Rightarrow>
          (case call ''get_worklogs'' (fetcher_get_worklogs j)
                  [JString issue_key] [(''jira_pat'', JString jira_pat)] of
             (tr, Inl e) \<Rightarrow> (tr, Inl e)
           | (tr, Inr worklogs) \<Rightarrow>
               (tr, Inr (Json_dumps (JObject [(''worklogs'', worklogs)]) 2 False))))"

definition download_attachments ::
  "mcp_context \<Rightarrow> string \<Rightarrow> string \<Rightarrow> string \<Rightarrow> json_text io" where
  "download_attachments ctx issue_key target_dir jira_pat =
     (case require_jira ctx of
        Inl e \<Rightarrow> ([], Inl e)
      | Inr j \<Rightarrow>
          (case call ''download_issue_attachments'' (fetcher_download_issue_attachments j) []
                  [(''issue_key'', JString issue_key),
                   (''target_dir'', JString target_dir),
                   (''jira_pat'', JString jira_pat)] of
             (tr, Inl e) \<Rightarrow> (tr, Inl e)
           | (tr, Inr result) \<Rightarrow> (tr, Inr (Json_dumps result 2 False))))"

definition get_agile_boards ::
  "mcp_context \<Rightarrow> string \<Rightarrow> string option \<Rightarrow> string option \<Rightarrow> string option \<Rightarrow> int \<Rightarrow> int
     \<Rightarrow> json_text io" where
  "get_agile_boards ctx jira_pat board_name project_key board_type start_at limit =
     (case require_jira ctx of
        Inl e \<Rightarrow> ([], Inl e)
      | Inr j \<Rightarrow>
          (case call ''get_all_agile_boards_model'' (fetcher_get_all_agile_boards_model j) []
                  [(''board_name'', opt_str board_name),
                   (''project_key'', opt_str project_key),
                   (''board_type'', opt_str board_type),
                   (''start'', JInt start_at),
                   (''limit'', JInt limit),
                   (''jira_pat'', JString jira_pat)] of
             (tr, Inl e) \<Rightarrow> (tr, Inl e)
           | (tr, Inr boards) \<Rightarrow>
               (tr, Inr (Json_dumps
                  (JArray (map (\<lambda>board. JObject (to_simplified_dict board)) boards)) 2 False))))"

definition get_board_issues ::
  "mcp_context \<Rightarrow> string \<Rightarrow> string \<Rightarrow> string \<Rightarrow> string option \<Rightarrow> int \<Rightarrow> int
     \<Rightarrow> string option \<Rightarrow> json_text io" where
  "get_board_issues ctx board_id jql jira_pat flds start_at limit expand =
     (case require_jira ctx of
        Inl e \<Rightarrow> ([], Inl e)
      | Inr j \<Rightarrow>
          (case call ''get_board_issues'' (fetcher_get_board_issues j) []
                  [(''board_id'', JString board_id),
                   (''jql'', JString jql),
                   (''fields'', fields_list flds),
                   (''start'', JInt start_at),
                   (''limit'', JInt limit),
                   (''expand'', opt_str expand),
                   (''jira_pat'', JString jira_pat)] of
             (tr, Inl e) \<Rightarrow> (tr, Inl e)
           | (tr, Inr search_result) \<Rightarrow>
               (tr, Inr (Json_dumps (JObject (to_simplified_dict search_result)) 2 False))))"

definition get_sprints_from_board ::
  "mcp_context \<Rightarrow> string \<Rightarrow> string \<Rightarrow> string option \<Rightarrow> int \<Rightarrow> int \<Rightarrow> json_text io" where
  "get_sprints_from_board ctx board_id jira_pat state start_at limit =
     (case require_jira ctx of
        Inl e \<Rightarrow> ([], Inl e)
      | Inr j \<Rightarrow>
          (case call ''get_sprints_from_board'' (fetcher_get_sprints_from_board j) []
                  [(''board_id'', JString board_id),
                   (''state'', opt_str state),
                   (''start'', JInt start_at),
                   (''limit'', JInt limit),
                   (''jira_pat'', JString jira_pat)] of
             (tr, Inl e) \<Rightarrow> (tr, Inl e)
           | (tr, Inr sprints) \<Rightarrow>
               (tr, Inr (Json_dumps
                  (JArray (map (\<lambda>sprint. JObject (to_simplified_dict sprint)) sprints)) 2 False))))"

definition get_sprint_issues ::
  "mcp_context \<Rightarrow> string \<Rightarrow> string \<Rightarrow> string \<Rightarrow> string option \<Rightarrow> int \<Rightarrow> int
     \<Rightarrow> string option \<Rightarrow> json_text io" where
  "get_sprint_issues ctx board_id sprint_id jira_pat flds start_at limit expand =
     (case require_jira ctx of
        Inl e \<Rightarrow> ([], Inl e)
      | Inr j \<Rightarrow>
          (case call ''get_sprint_issues'' (fetcher_get_sprint_issues j) []
                  [(''board_id'', JString board_id),
                   (''sprint_id'', JString sprint_id),
                   (''fields'', fields_list flds),
                   (''start'', JInt start_at),
                   (''limit'', JInt limit),
                   (''expand'', opt_str expand),
                   (''jira_pat'', JString jira_pat)] of
             (tr, Inl e) \<Rightarrow> (tr, Inl e)
           | (tr, Inr search_result) \<Rightarrow>
               (tr, Inr (Json_dumps (JObject (to_simplified_dict search_result)) 2 False))))"

definition get_link_types :: "mcp_context \<Rightarrow> string \<Rightarrow> json_text io" where
  "get_link_types ctx jira_pat =
     (case require_jira ctx of
        Inl e \<Rightarrow> ([], Inl e)
      | Inr j \<Rightarrow>
          (case call ''get_issue_link_types'' (fetcher_get_issue_link_types j) []
                  [(''jira_pat'', JString jira_pat)] of
             (tr, Inl e) \<Rightarrow> (tr, Inl e)
           | (tr, Inr link_types) \<Rightarrow> (tr, Inr (Json_dumps link_types 2 False))))"

definition create_issue ::
  "mcp_context \<Rightarrow> string \<Rightarrow> string \<Rightarrow> string \<Rightarrow> string \<Rightarrow> string option \<Rightarrow> string option
     \<Rightarrow> string option \<Rightarrow> string option \<Rightarrow> string option \<Rightarrow> string list option
     \<Rightarrow> string option \<Rightarrow> (string \<times> json) list option \<Rightarrow> json_text io" where
  "create_issue ctx project_key issue_type summary jira_pat description parent_key
       assignee_id reporter_id priority_name labels due_date custom_fields =
     (case require_jira ctx of
        Inl e \<Rightarrow> ([], Inl e)
      | Inr j \<Rightarrow>
          (case call ''create_issue'' (fetcher_create_issue j) []
                  [(''project_key'', JString project_key),
                   (''issue_type'', JString issue_type),
                   (''summary'', JString summary),
                   (''description'', opt_str description),
                   (''parent_key'', opt_str parent_key),
                   (''assignee_id'', opt_str assignee_id),
                   (''reporter_id'', opt_str reporter_id),
                   (''priority_name'', opt_str priority_name),
                   (''labels'', (case labels of None \<Rightarrow> JNull | Some ls \<Rightarrow> str_list ls)),
                   (''due_date'', opt_str due_date),
                   (''custom_fields'',
                      (case custom_fields of None \<Rightarrow> JNull | Some d \<Rightarrow> JObject d)),
                   (''jira_pat'', JString jira_pat)] of
             (tr, Inr issue) \<Rightarrow>
               (tr, Inr (Json_dumps
                  (JObject [(''success'', JBool True),
                            (''issue'', JObject (to_simplified_dict issue))]) 2 False))
           | (tr, Inl e) \<Rightarrow>
               (let error_message = ''Failed to create issue: '' @ str e
                in (tr @ [Log ERROR error_message True],
                    Inr (Json_dumps
                       (JObject [(''success'', JBool False),
                                 (''error'', JString error_message)]) 2 False)))))"

definition batch_create_issues ::
  "mcp_context \<Rightarrow> (string \<times> json) list list \<Rightarrow> string \<Rightarrow> json_text io" where
  "batch_create_issues ctx issues jira_pat =
     (case require_jira ctx of
        Inl e \<Rightarrow> ([], Inl e)
      | Inr j \<Rightarrow>
          (case call ''batch_create_issues'' (fetcher_batch_create_issues j)
                  [JArray (map JObject issues)] [(''jira_pat'', JString jira_pat)] of
             (tr, Inr results) \<Rightarrow>
               (tr, Inr (Json_dumps
                  (JObject [(''success'', JBool True), (''results'', results)]) 2 False))
           | (tr, Inl e) \<Rightarrow>
               (let error_message = ''Failed to batch create issues: '' @ str e
                in (tr @ [Log ERROR error_message True],
                    Inr (Json_dumps
                       (JObject [(''success'', JBool False),
                                 (''error'', JString error_message)]) 2 False)))))"

definition batch_get_changelogs ::
  "mcp_context \<Rightarrow> string \<Rightarrow> string list \<Rightarrow> int \<Rightarrow> int \<Rightarrow> json_text io" where
  "batch_get_changelogs ctx jira_pat issue_ids_or_keys start_at limit =
     (case require_jira ctx of
        Inl e \<Rightarrow> ([], Inl e)
      | Inr j \<Rightarrow>
          (case call ''batch_get_changelogs'' (fetcher_batch_get_changelogs j) []
                  [(''issue_ids_or_keys'', str_list issue_ids_or_keys),
                   (''start_at'', JInt start_at),
                   (''limit'', JInt limit),
                   (''jira_pat'', JString jira_pat)] of
             (tr, Inr changelogs) \<Rightarrow>
               (tr, Inr (Json_dumps (JObject [(''changelogs'', changelogs)]) 2 False))
           | (tr, Inl e) \<Rightarrow>
               (let error_message = ''Failed to get changelogs: '' @ str e
                in (tr @ [Log ERROR error_message True],
                    Inr (Json_dumps (JObject [(''error'', JString error_message)]) 2 False)))))"

subsection \<open>A call of any tool\<close>

text \<open>
  The sixteen tools the server registers, each with the arguments of its signature in
  the signature's order.
\<close>

datatype tool_call =
    Get_user_profile string string
  | Get_issue string string "string option" "string option" int "string option" bool
  | Search string string "string option" int int "string option" "string option"
  | Search_fields string string int bool
  | Get_project_issues string string int int
  | Get_transitions string string
  | Get_worklog string string
  | Download_attachments string string string
  | Get_agile_boards string "string option" "string option" "string option" int int
  | Get_board_issues string string string "string option" int int "string option"
  | Get_sprints_from_board string string "string option" int int
  | Get_sprint_issues string string string "string option" int int "string option"
  | Get_link_types string
  | Create_issue string string string string "string option" "string option" "string option"
      "string option" "string option" "string list option" "string option"
      "(string \<times> json) list option"
  | Batch_create_issues "(string \<times> json) list list" string
  | Batch_get_changelogs string "string list" int int

fun run_tool :: "mcp_context \<Rightarrow> tool_call \<Rightarrow> json_text io" where
  "run_tool ctx (Get_user_profile a b) = get_user_profile ctx a b"
| "run_tool ctx (Get_issue a b c d e f g) = get_issue ctx a b c d e f g"
| "run_tool ctx (Search a b c d e f g) = search ctx a b c d e f g"
| "run_tool ctx (Search_fields a b c d) = search_fields ctx a b c d"
| "run_tool ctx (Get_project_issues a b c d) = get_project_issues ctx a b c d"
| "run_tool ctx (Get_transitions a b) = get_transitions ctx a b"
| "run_tool ctx (Get_worklog a b) = get_worklog ctx a b"
| "run_tool ctx (Download_attachments a b c) = download_attachments ctx a b c"
| "run_tool ctx (Get_agile_boards a b c d e f) = get_agile_boards ctx a b c d e f"
| "run_tool ctx (Get_board_issues a b c d e f g) = get_board_issues ctx a b c d e f g"
| "run_tool ctx (Get_sprints_from_board a b c d e) = get_sprints_from_board ctx a b c d e"
| "run_tool ctx (Get_sprint_issues a b c d e f g) = get_sprint_issues ctx a b c d e f g"
| "run_tool ctx (Get_link_types a) = get_link_types ctx a"
| "run_tool ctx (Create_issue a b c d e f g h i j k l) = create_issue ctx a b c d e f g h i j k l"
| "run_tool ctx (Batch_create_issues a b) = batch_create_issues ctx a b"
| "run_tool ctx (Batch_get_changelogs a b c d) = batch_get_changelogs ctx a b c d"


fun is_search :: "tool_call \<Rightarrow> bool" where
  "is_search (Search a b c d e f g) = True"
| "is_search _ = False"

text \<open>
  The client a context holds, if any: \<^verbatim>\<open>None\<close> when there is no lifespan context or
  its \<^verbatim>\<open>jira\<close> is \<^verbatim>\<open>None\<close>.
\<close>

definition jira_of :: "mcp_context \<Rightarrow> jira_fetcher option" where
  "jira_of ctx =
     (case lifespan_context (request_context ctx) of
        None \<Rightarrow> None
      | Some lifespan_ctx \<Rightarrow> jira lifespan_ctx)"

definition with_jira :: "jira_fetcher \<Rightarrow> mcp_context" where
  "with_jira j = \<lparr>request_context = \<lparr>lifespan_context = Some \<lparr>jira = Some j\<rparr>\<rparr>\<rparr>"

section \<open>The paged fetch of the client wrapper\<close>

text \<open>
  \<^verbatim>\<open>JiraClient\<close> lives in \<^verbatim>\<open>mcp_atlassian/jira/client.py\<close>, which is not among the
  sources; its tests (\<^verbatim>\<open>tests/unit/jira/test_client.py\<close>) are. The definitions of this
  section follow the spec's description of the client wrapper: it "holds configuration",
  "optionally constructs a second transient client scoped to a caller-supplied token, and
  offers a generic paged-fetch helper"; a paged fetch is "repeatedly invoking the same
  endpoint with an advancing continuation token until the server omits one", "over two
  HTTP verbs"; the per-request PAT "is a conditional that swaps which underlying client
  object issues the call".
\<close>

text \<open>
  Modelled from the spec: the configuration held by \<^verbatim>\<open>JiraClient\<close> (\<^verbatim>\<open>JiraConfig\<close>, not
  among the sources). Of its fields only the Cloud flag bears on the paged fetch.
\<close>

record jira_config =
  is_cloud :: bool

type_synonym py_dict = "(string \<times> json) list"

text \<open>
  Modelled from the spec: the \<^verbatim>\<open>method\<close> argument of \<^verbatim>\<open>get_paged\<close>, one of the two HTTP
  verbs (\<^verbatim>\<open>"get"\<close>, \<^verbatim>\<open>"post"\<close>).
\<close>

datatype paged_method = Get | Post

text \<open>
  Modelled from the spec: the vendor client object that issues a call, the server's default
  one or a transient one scoped to a token.
\<close>

datatype issuer = Default_client | Pat_client string

text \<open>
  Modelled from the spec: a call of the vendor client. A GET carries the dictionary as
  query parameters, a POST as its JSON body; both name the issuing client and the path.
\<close>

datatype request =
    Get_request issuer string py_dict
  | Post_request issuer string py_dict

text \<open>
  The Jira server: from its state and a request, the response (a dictionary) and its next
  state.
\<close>

type_synonym 's server = "'s \<Rightarrow> request \<Rightarrow> py_dict \<times> 's"

text \<open>
  Modelled from the spec: what \<^verbatim>\<open>get_paged\<close> does besides returning: it has
  \<^verbatim>\<open>_create_jira_client_with_pat\<close> build a transient client, and it sends requests.
\<close>

datatype client_event = Created_pat_client string | Sent request

text \<open>
  Modelled from the spec: the call \<^verbatim>\<open>get_paged\<close> makes in a round, the GET or the POST
  of the issuing client on the path, by the method.
\<close>

fun make_request :: "issuer \<Rightarrow> paged_method \<Rightarrow> string \<Rightarrow> py_dict \<Rightarrow> request" where
  "make_request who Get url current_data = Get_request who url current_data"
| "make_request who Post url current_data = Post_request who url current_data"

text \<open>
  Modelled from the spec: the loop of \<^verbatim>\<open>JiraClient.get_paged\<close> (absent from the sources).
  Each round sends the current dictionary to the same endpoint and keeps the response; a
  response without \<^verbatim>\<open>nextPageToken\<close> ends the loop, any other puts its token into the
  dictionary under that key. Nothing bounds the number of rounds, so the loop is a partial
  function: \<open>None\<close> is a loop that never ends.
\<close>

partial_function (option) paged_loop ::
  "'s server \<Rightarrow> issuer \<Rightarrow> paged_method \<Rightarrow> string \<Rightarrow> py_dict \<Rightarrow> request list \<Rightarrow> py_dict list
     \<Rightarrow> 's \<Rightarrow> (request list \<times> py_dict list \<times> 's) option" where
  "paged_loop srv who m url current_data sent all_results s =
     (let q = make_request who m url current_data;
          (api_result, s') = srv s q
      in case map_of api_result ''nextPageToken'' of
           None \<Rightarrow> Some (sent @ [q], all_results @ [api_result], s')
         | Some token \<Rightarrow>
             paged_loop srv who m url (AList.update ''nextPageToken'' token current_data)
               (sent @ [q]) (all_results @ [api_result]) s')"

text \<open>
  Modelled from the spec: the per-request PAT conditional of \<^verbatim>\<open>get_paged\<close>. A non-empty
  token makes \<^verbatim>\<open>_create_jira_client_with_pat\<close> build the client that issues the calls;
  otherwise the default client issues them.
\<close>

definition select_client :: "string option \<Rightarrow> issuer \<times> client_event list" where
  "select_client pat =
     (case pat of
        None \<Rightarrow> (Default_client, [])
      | Some p \<Rightarrow> if p \<noteq> [] then (Pat_client p, [Created_pat_client p])
                  else (Default_client, []))"

text \<open>
  Modelled from the spec: \<^verbatim>\<open>JiraClient.get_paged(method, url, params_or_json, pat)\<close>
  (absent from the sources). Outside Jira Cloud it raises before anything else, as the
  test \<^verbatim>\<open>test_get_paged_without_cloud\<close> expects; otherwise it selects the issuing client
  and returns the pages of the loop in order.
\<close>

definition get_paged ::
  "jira_config \<Rightarrow> 's server \<Rightarrow> paged_method \<Rightarrow> string \<Rightarrow> py_dict \<Rightarrow> string option \<Rightarrow> 's
     \<Rightarrow> (client_event list \<times> (exn + py_dict list) \<times> 's) option" where
  "get_paged config srv m url params pat s =
     (if \<not> is_cloud config
      then Some ([], Inl (Exn ValueError
                     ''Paged requests are only available for Jira Cloud platform''), s)
      else
        let (who, created) = select_client pat
        in case paged_loop srv who m url params [] [] s of
             None \<Rightarrow> None
           | Some (sent, all_results, s') \<Rightarrow>
               Some (created @ map Sent sent, Inr all_results, s'))"

section \<open>Vocabulary of the statements about the tools\<close>

text \<open>The value under a key of a JSON object; \<open>None\<close> for a missing key or another value.\<close>

definition field :: "json \<Rightarrow> string \<Rightarrow> json option" where
  "field v k = (case v of JObject d \<Rightarrow> map_of d k | _ \<Rightarrow> None)"






text \<open>
  A client for concrete runs: the methods that return a model object answer \<open>one\<close>, those
  that return plain data answer \<open>raw\<close>, those that return a list of model objects answer
  \<open>many\<close>, whatever the arguments.
\<close>

definition stub_fetcher :: "exn + model \<Rightarrow> exn + json \<Rightarrow> exn + model list \<Rightarrow> jira_fetcher" where
  "stub_fetcher one raw many =
     \<lparr>fetcher_get_user_profile_by_identifier = (\<lambda>args kwargs. one),
      fetcher_get_issue = (\<lambda>args kwargs. one),
      fetcher_search_issues = (\<lambda>args kwargs. one),
      fetcher_search_fields = (\<lambda>args kwargs. raw),
      fetcher_get_project_issues = (\<lambda>args kwargs. one),
      fetcher_get_available_transitions = (\<lambda>args kwargs. raw),
      fetcher_get_worklogs = (\<lambda>args kwargs. raw),
      fetcher_download_issue_attachments = (\<lambda>args kwargs. raw),
      fetcher_get_all_agile_boards_model = (\<lambda>args kwargs. many),
      fetcher_get_board_issues = (\<lambda>args kwargs. one),
      fetcher_get_sprints_from_board = (\<lambda>args kwargs. many),
      fetcher_get_sprint_issues = (\<lambda>args kwargs. one),
      fetcher_get_issue_link_types = (\<lambda>args kwargs. raw),
      fetcher_create_issue = (\<lambda>args kwargs. one),
      fetcher_batch_create_issues = (\<lambda>args kwargs. raw),
      fetcher_batch_get_changelogs = (\<lambda>args kwargs. raw)\<rparr>"

definition failing_fetcher :: "exn \<Rightarrow> jira_fetcher" where
  "failing_fetcher e = stub_fetcher (Inl e) (Inl e) (Inl e)"

definition no_lifespan :: mcp_context where
  "no_lifespan = \<lparr>request_context = \<lparr>lifespan_context = None\<rparr>\<rparr>"

definition no_client :: mcp_context where
  "no_client = \<lparr>request_context = \<lparr>lifespan_context = Some \<lparr>jira = None\<rparr>\<rparr>\<rparr>"


section \<open>Vocabulary of the statements about the paged fetch\<close>

fun request_issuer :: "request \<Rightarrow> issuer" where
  "request_issuer (Get_request who url d) = who"
| "request_issuer (Post_request who url d) = who"

fun request_method :: "request \<Rightarrow> paged_method" where
  "request_method (Get_request who url d) = Get"
| "request_method (Post_request who url d) = Post"

fun request_url :: "request \<Rightarrow> string" where
  "request_url (Get_request who url d) = url"
| "request_url (Post_request who url d) = url"

text \<open>The same request issued by another client.\<close>

fun reissue :: "issuer \<Rightarrow> request \<Rightarrow> request" where
  "reissue who (Get_request _ url d) = Get_request who url d"
| "reissue who (Post_request _ url d) = Post_request who url d"

text \<open>Whether a response carries a continuation token, and a dictionary with that token added.\<close>

definition has_token :: "py_dict \<Rightarrow> bool" where
  "has_token r = (map_of r ''nextPageToken'' \<noteq> None)"

definition with_token_of :: "py_dict \<Rightarrow> py_dict \<Rightarrow> py_dict" where
  "with_token_of r params =
     (case map_of r ''nextPageToken'' of
        None \<Rightarrow> params
      | Some token \<Rightarrow> AList.update ''nextPageToken'' token params)"

text \<open>
  The requests a paged fetch is to issue when the responses are \<open>rs\<close>: the first with the
  initial dictionary, the \<open>k\<close>-th (\<open>k > 1\<close>) with the initial dictionary plus the token of
  response \<open>k - 1\<close>.
\<close>

definition expected_requests ::
  "issuer \<Rightarrow> paged_method \<Rightarrow> string \<Rightarrow> py_dict \<Rightarrow> py_dict list \<Rightarrow> request list" where
  "expected_requests who m url params rs =
     (case rs of
        [] \<Rightarrow> []
      | _ # _ \<Rightarrow> make_request who m url params
                 # map (\<lambda>r. make_request who m url (with_token_of r params)) (butlast rs))"

text \<open>The responses of a server to a list of requests sent one after the other.\<close>

fun serve :: "'s server \<Rightarrow> 's \<Rightarrow> request list \<Rightarrow> py_dict list \<times> 's" where
  "serve srv s [] = ([], s)"
| "serve srv s (q # qs) =
     (let (r, s') = srv s q; (rs, s'') = serve srv s' qs in (r # rs, s''))"

text \<open>The requests as the loop builds them, each from the dictionary of the round before.\<close>

fun loop_requests :: "issuer \<Rightarrow> paged_method \<Rightarrow> string \<Rightarrow> py_dict \<Rightarrow> py_dict list \<Rightarrow> request list" where
  "loop_requests who m url cur [] = []"
| "loop_requests who m url cur (r # rs) =
     make_request who m url cur # loop_requests who m url (with_token_of r cur) rs"

text \<open>
  A run of the loop that returns \<open>y\<close>: the server answered the requests of the loop with
  some responses \<open>rs\<close>, all but the last with a token, and \<open>y\<close> holds those requests and
  responses after what had been sent and collected before.
\<close>

definition run_of ::
  "'s server \<Rightarrow> issuer \<Rightarrow> paged_method \<Rightarrow> string \<Rightarrow> py_dict \<Rightarrow> request list \<Rightarrow> py_dict list
     \<Rightarrow> 's \<Rightarrow> (request list \<times> py_dict list \<times> 's) \<Rightarrow> bool" where
  "run_of srv who m url cur sent acc s y =
     (\<exists>rs. rs \<noteq> [] \<and> (\<forall>r\<in>set (butlast rs). has_token r) \<and> \<not> has_token (last rs) \<and>
           fst (serve srv s (loop_requests who m url cur rs)) = rs \<and>
           y = (sent @ loop_requests who m url cur rs, acc @ rs,
                snd (serve srv s (loop_requests who m url cur rs))))"

text \<open>The events that are the building of a transient client.\<close>

fun is_creation :: "client_event \<Rightarrow> bool" where
  "is_creation (Created_pat_client _) = True"
| "is_creation (Sent _) = False"

text \<open>A server that answers a request alike whoever issues it.\<close>

definition issuer_blind :: "'s server \<Rightarrow> bool" where
  "issuer_blind srv = (\<forall>s who q. srv s (reissue who q) = srv s q)"

text \<open>
  The mock of the tests (\<^verbatim>\<open>side_effect = mock_responses\<close>): it answers with the next
  response of a list, whatever the request. The Cloud configuration and the three pages
  are the tests' too.
\<close>

fun scripted :: "py_dict list server" where
  "scripted [] q = ([], [])"
| "scripted (r # rs) q = (r, rs)"

definition cloud_config :: jira_config where
  "cloud_config = \<lparr>is_cloud = True\<rparr>"

definition test_pages :: "py_dict list" where
  "test_pages =
     [[(''data'', JString ''page1''), (''nextPageToken'', JString ''token1'')],
      [(''data'', JString ''page2''), (''nextPageToken'', JString ''token2'')],
      [(''data'', JString ''page3'')]]"

section \<open>Properties of the tools\<close>

lemmas tool_defs = get_user_profile_def get_issue_def search_def search_fields_def
  get_project_issues_def get_transitions_def get_worklog_def download_attachments_def
  get_agile_boards_def get_board_issues_def get_sprints_from_board_def get_sprint_issues_def
  get_link_types_def create_issue_def batch_create_issues_def batch_get_changelogs_def

lemma require_jira_None:
  "jira_of ctx = None \<Longrightarrow>
     require_jira ctx = Inl (Exn ValueError ''Jira client is not configured or available.'')"
  by (auto simp add: jira_of_def require_jira_def split: option.splits)

lemma require_jira_Some: "jira_of ctx = Some j \<Longrightarrow> require_jira ctx = Inr j"
  by (auto simp add: jira_of_def require_jira_def split: option.splits)

lemma jira_of_with_jira: "jira_of (with_jira j) = Some j"
  by (simp add: jira_of_def with_jira_def)

lemma jira_of_no_lifespan: "jira_of no_lifespan = None"
  by (simp add: jira_of_def no_lifespan_def)

lemma jira_of_no_client: "jira_of no_client = None"
  by (simp add: jira_of_def no_client_def)

subsection \<open>A missing client\<close>

text \<open>
  C9. Whatever the tool and its arguments, when the lifespan context is absent or holds
  no Jira client the tool raises: the result is an exception, never a text, and the trace
  has no call of the client. The exception is
  \<^verbatim>\<open>ValueError("Jira client is not configured or available.")\<close> for every tool but
  \<^verbatim>\<open>search\<close>, whose exception is
  \<^verbatim>\<open>RuntimeError("Jira client is not initialized in the server lifespan context.")\<close>.
\<close>

theorem tools_raise_without_client:
  assumes "jira_of ctx = None"
  shows "client_calls (fst (run_tool ctx c)) = [] \<and>
         snd (run_tool ctx c) =
           Inl (if is_search c
                then Exn RuntimeError
                       ''Jira client is not initialized in the server lifespan context.''
                else Exn ValueError ''Jira client is not configured or available.'')"
proof (cases c)
  case (Search jql token flds limit start_at projects_filter expand)
  with assms show ?thesis
    by (auto simp add: search_def jira_of_def client_calls_def Let_def split: option.splits)
qed (use assms in \<open>simp_all add: tool_defs require_jira_None client_calls_def\<close>)

text \<open>
  The theorem at work: \<^verbatim>\<open>get_link_types\<close> without a lifespan context, and \<^verbatim>\<open>search\<close>
  with a lifespan context whose \<^verbatim>\<open>jira\<close> is \<^verbatim>\<open>None\<close>.
\<close>

theorem tools_raise_without_client_witness:
  "jira_of no_lifespan = None \<and>
   jira_of no_client = None \<and>
   run_tool no_lifespan (Get_link_types ''token'') =
     ([], Inl (Exn ValueError ''Jira client is not configured or available.'')) \<and>
   snd (run_tool no_client (Search ''project = PROJ'' ''token'' None 10 0 None None)) =
     Inl (Exn RuntimeError ''Jira client is not initialized in the server lifespan context.'')"
  using tools_raise_without_client [OF jira_of_no_lifespan, of "Get_link_types ''token''"]
    tools_raise_without_client [OF jira_of_no_client,
      of "Search ''project = PROJ'' ''token'' None 10 0 None None"]
  by (simp add: jira_of_no_lifespan jira_of_no_client get_link_types_def require_jira_None)

subsection \<open>Exceptions of the client turned into JSON\<close>

text \<open>
  What four tools return, by what the client's method did: \<^verbatim>\<open>get_user_profile\<close>,
  \<^verbatim>\<open>create_issue\<close>, \<^verbatim>\<open>batch_create_issues\<close> and \<^verbatim>\<open>batch_get_changelogs\<close> wrap the
  call in \<^verbatim>\<open>try\<close> / \<^verbatim>\<open>except Exception\<close>.
\<close>

lemma get_user_profile_result:
  assumes "jira_of ctx = Some j"
  shows "snd (get_user_profile ctx uid pat) =
           Inr (Json_dumps
             (case fetcher_get_user_profile_by_identifier j
                     [JString uid] [(''jira_pat'', JString pat)] of
                Inr user \<Rightarrow> JObject [(''success'', JBool True),
                                     (''user'', JObject (to_simplified_dict user))]
              | Inl e \<Rightarrow> JObject [(''success'', JBool False),
                                  (''error'', JString (str e)),
                                  (''user_identifier'', JString uid)]) 2 False)"
  using assms
  by (simp add: get_user_profile_def require_jira_Some call_def Let_def case_prod_beta
      split: sum.splits)


lemma create_issue_result:
  assumes "jira_of ctx = Some j"
  shows "\<exists>kwargs.
           client_calls (fst (create_issue ctx pk it sm pat de pa asg rep pr la du cf)) =
             [ClientCall ''create_issue'' [] kwargs] \<and>
           map_of kwargs ''jira_pat'' = Some (JString pat) \<and>
           snd (create_issue ctx pk it sm pat de pa asg rep pr la du cf) =
             Inr (Json_dumps
               (case fetcher_create_issue j [] kwargs of
                  Inr issue \<Rightarrow> JObject [(''success'', JBool True),
                                        (''issue'', JObject (to_simplified_dict issue))]
                | Inl e \<Rightarrow> JObject [(''success'', JBool False),
                                    (''error'', JString (''Failed to create issue: '' @ str e))])
               2 False)"
  using assms
  by (simp add: create_issue_def require_jira_Some call_def Let_def client_calls_def
      split: sum.splits)

lemma batch_create_issues_result:
  assumes "jira_of ctx = Some j"
  shows "snd (batch_create_issues ctx issues pat) =
           Inr (Json_dumps
             (case fetcher_batch_create_issues j
                     [JArray (map JObject issues)] [(''jira_pat'', JString pat)] of
                Inr results \<Rightarrow> JObject [(''success'', JBool True), (''results'', results)]
              | Inl e \<Rightarrow> JObject [(''success'', JBool False),
                                  (''error'',
                                   JString (''Failed to batch create issues: '' @ str e))])
             2 False)"
  using assms
  by (simp add: batch_create_issues_def require_jira_Some call_def Let_def split: sum.splits)

lemma batch_get_changelogs_result:
  assumes "jira_of ctx = Some j"
  shows "snd (batch_get_changelogs ctx pat keys start_at limit) =
           Inr (Json_dumps
             (case fetcher_batch_get_changelogs j []
                     [(''issue_ids_or_keys'', str_list keys), (''start_at'', JInt start_at),
                      (''limit'', JInt limit), (''jira_pat'', JString pat)] of
                Inr changelogs \<Rightarrow> JObject [(''changelogs'', changelogs)]
              | Inl e \<Rightarrow> JObject [(''error'',
                                   JString (''Failed to get changelogs: '' @ str e))])
             2 False)"
  using assms
  by (simp add: batch_get_changelogs_def require_jira_Some call_def Let_def split: sum.splits)

text \<open>
  C5, as stated, fails for \<^verbatim>\<open>batch_get_changelogs\<close>: when the client raises, the object
  it returns has the key \<^verbatim>\<open>error\<close> alone and no \<^verbatim>\<open>success\<close> flag.
\<close>

theorem batch_get_changelogs_lacks_success_flag:
  "snd (batch_get_changelogs (with_jira (failing_fetcher (Exn OtherException ''boom'')))
          ''token'' [''PROJ-1''] 0 10) =
     Inr (Json_dumps (JObject [(''error'', JString ''Failed to get changelogs: boom'')]) 2 False)
   \<and> field (JObject [(''error'', JString ''Failed to get changelogs: boom'')]) ''success'' = None"
  by (simp add: batch_get_changelogs_def require_jira_Some [OF jira_of_with_jira] call_def
      failing_fetcher_def stub_fetcher_def field_def Let_def)

text \<open>
  C5, amended. With a client in the context, none of the four tools propagates an
  exception of its client call. \<^verbatim>\<open>get_user_profile\<close> returns
  \<^verbatim>\<open>{"success": false, "error": str(e), "user_identifier": ...}\<close> when the call raises
  \<^verbatim>\<open>e\<close> and \<^verbatim>\<open>{"success": true, "user": ...}\<close> with the simplified dictionary when it
  returns. \<^verbatim>\<open>create_issue\<close> and \<^verbatim>\<open>batch_create_issues\<close> return \<^verbatim>\<open>success\<close> false
  and, under \<^verbatim>\<open>error\<close>, the message prefixed with what failed.
  \<^verbatim>\<open>batch_get_changelogs\<close> returns an object with the prefixed message under
  \<^verbatim>\<open>error\<close> and no \<^verbatim>\<open>success\<close> key; on success it returns \<^verbatim>\<open>{"changelogs": ...}\<close>.
\<close>

theorem tools_format_client_errors:
  assumes "jira_of ctx = Some j"
  shows
    "snd (get_user_profile ctx user_identifier jira_pat) =
       Inr (Json_dumps
         (case fetcher_get_user_profile_by_identifier j
                 [JString user_identifier] [(''jira_pat'', JString jira_pat)] of
            Inr user \<Rightarrow> JObject [(''success'', JBool True),
                                 (''user'', JObject (to_simplified_dict user))]
          | Inl e \<Rightarrow> JObject [(''success'', JBool False),
                              (''error'', JString (str e)),
                              (''user_identifier'', JString user_identifier)]) 2 False) \<and>
     (\<exists>kwargs.
        client_calls (fst (create_issue ctx pk it sm jira_pat de pa asg rep pr la du cf)) =
          [ClientCall ''create_issue'' [] kwargs] \<and>
        map_of kwargs ''jira_pat'' = Some (JString jira_pat) \<and>
        snd (create_issue ctx pk it sm jira_pat de pa asg rep pr la du cf) =
          Inr (Json_dumps
            (case fetcher_create_issue j [] kwargs of
               Inr issue \<Rightarrow> JObject [(''success'', JBool True),
                                     (''issue'', JObject (to_simplified_dict issue))]
             | Inl e \<Rightarrow> JObject [(''success'', JBool False),
                                 (''error'', JString (''Failed to create issue: '' @ str e))])
            2 False)) \<and>
     snd (batch_create_issues ctx issues jira_pat) =
       Inr (Json_dumps
         (case fetcher_batch_create_issues j
                 [JArray (map JObject issues)] [(''jira_pat'', JString jira_pat)] of
            Inr results \<Rightarrow> JObject [(''success'', JBool True), (''results'', results)]
          | Inl e \<Rightarrow> JObject [(''success'', JBool False),
                              (''error'',
                               JString (''Failed to batch create issues: '' @ str e))])
         2 False) \<and>
     snd (batch_get_changelogs ctx jira_pat issue_ids_or_keys start_at limit) =
       Inr (Json_dumps
         (case fetcher_batch_get_changelogs j []
                 [(''issue_ids_or_keys'', str_list issue_ids_or_keys),
                  (''start_at'', JInt start_at),
                  (''limit'', JInt limit), (''jira_pat'', JString jira_pat)] of
            Inr changelogs \<Rightarrow> JObject [(''changelogs'', changelogs)]
          | Inl e \<Rightarrow> JObject [(''error'',
                               JString (''Failed to get changelogs: '' @ str e))])
         2 False)"
proof -
  note profile = get_user_profile_result [OF assms]
  note created = create_issue_result [OF assms]
  note batch = batch_create_issues_result [OF assms]
  note logs = batch_get_changelogs_result [OF assms]
  show ?thesis
    by (intro conjI profile created batch logs)
qed

text \<open>The theorem at a client every method of which raises \<^verbatim>\<open>ValueError("User not found")\<close>.\<close>

theorem tools_format_client_errors_witness:
  "jira_of (with_jira (failing_fetcher (Exn ValueError ''User not found''))) =
     Some (failing_fetcher (Exn ValueError ''User not found'')) \<and>
   snd (get_user_profile (with_jira (failing_fetcher (Exn ValueError ''User not found'')))
          ''bob'' ''token'') =
     Inr (Json_dumps (JObject [(''success'', JBool False),
                               (''error'', JString ''User not found''),
                               (''user_identifier'', JString ''bob'')]) 2 False) \<and>
   snd (batch_create_issues (with_jira (failing_fetcher (Exn ValueError ''User not found'')))
          [] ''token'') =
     Inr (Json_dumps (JObject [(''success'', JBool False),
                               (''error'',
                                JString ''Failed to batch create issues: User not found'')])
            2 False)"
  using tools_format_client_errors [OF jira_of_with_jira,
      of "failing_fetcher (Exn ValueError ''User not found'')" "''bob''" "''token''"
         _ _ _ _ _ _ _ _ _ _ _ "[]"]
  by (simp add: jira_of_with_jira failing_fetcher_def stub_fetcher_def)

subsection \<open>One call of the client per tool\<close>


























subsection \<open>The token of the search tool\<close>

text \<open>
  X1. \<^verbatim>\<open>search\<close> does nothing with its \<^verbatim>\<open>JIRA_PERSONAL_TOKEN\<close> argument: two calls that
  differ in the token alone have the same events, the call of \<^verbatim>\<open>search_issues\<close>
  included, and the same outcome.
\<close>

lemma search_ignores_token:
  "search ctx jql token flds limit start_at projects_filter expand =
     search ctx jql token' flds limit start_at projects_filter expand"
  by (simp add: search_def)

section \<open>Properties of the paged fetch\<close>

subsection \<open>The loop follows the tokens\<close>

lemma paged_loop_follows:
  assumes "rs \<noteq> []"
    and "\<forall>r\<in>set (butlast rs). has_token r"
    and "\<not> has_token (last rs)"
    and "fst (serve srv s (loop_requests who m url cur rs)) = rs"
  shows "paged_loop srv who m url cur sent acc s =
           Some (sent @ loop_requests who m url cur rs, acc @ rs,
                 snd (serve srv s (loop_requests who m url cur rs)))"
  using assms
proof (induction rs arbitrary: cur sent acc s)
  case Nil
  then show ?case by simp
next
  case (Cons r rs)
  let ?q = "make_request who m url cur"
  obtain r1 s1 where step: "srv s ?q = (r1, s1)"
    by (cases "srv s ?q")
  from Cons.prems(4) step have r1: "r1 = r"
    and rest: "fst (serve srv s1 (loop_requests who m url (with_token_of r cur) rs)) = rs"
    by (simp_all add: Let_def split: prod.splits)
  show ?case
  proof (cases "rs = []")
    case True
    with Cons.prems(3) have "map_of r ''nextPageToken'' = None"
      by (simp add: has_token_def)
    with True step r1 show ?thesis
      by (subst paged_loop.simps) (simp add: Let_def)
  next
    case False
    with Cons.prems(2) have "has_token r" by simp
    then obtain token where token: "map_of r ''nextPageToken'' = Some token"
      by (auto simp add: has_token_def)
    then have next_params:
      "with_token_of r cur = AList.update ''nextPageToken'' token cur"
      by (simp add: with_token_of_def)
    from False Cons.prems(2) have tokens: "\<forall>x\<in>set (butlast rs). has_token x" by simp
    from False Cons.prems(3) have final: "\<not> has_token (last rs)" by simp
    note ih = Cons.IH [OF False tokens final rest, of "sent @ [?q]" "acc @ [r]"]
    show ?thesis
      by (subst paged_loop.simps)
        (simp add: Let_def step r1 token ih next_params [symmetric] split: prod.splits)
  qed
qed

lemma loop_requests_closed_form:
  assumes "\<forall>r\<in>set (butlast rs). has_token r"
    and "\<And>token. AList.update ''nextPageToken'' token cur =
                    AList.update ''nextPageToken'' token params"
  shows "loop_requests who m url cur rs =
           (case rs of
              [] \<Rightarrow> []
            | _ # _ \<Rightarrow> make_request who m url cur
                       # map (\<lambda>r. make_request who m url (with_token_of r params)) (butlast rs))"
  using assms
proof (induction rs arbitrary: cur)
  case Nil
  then show ?case by simp
next
  case (Cons r rs)
  show ?case
  proof (cases rs)
    case Nil
    then show ?thesis by simp
  next
    case (Cons r' rs')
    with Cons.prems(1) have "has_token r" by simp
    then obtain token where token: "map_of r ''nextPageToken'' = Some token"
      by (auto simp add: has_token_def)
    have same: "with_token_of r cur = with_token_of r params"
      by (simp add: with_token_of_def token Cons.prems(2))
    have again: "AList.update ''nextPageToken'' t (with_token_of r cur) =
                   AList.update ''nextPageToken'' t params" for t
      by (simp add: with_token_of_def token Cons.prems(2))
    from Cons.prems(1) local.Cons have "\<forall>x\<in>set (butlast rs). has_token x" by simp
    from Cons.IH [OF this again] local.Cons same show ?thesis
      by simp
  qed
qed

lemma loop_requests_expected:
  assumes "\<forall>r\<in>set (butlast rs). has_token r"
  shows "loop_requests who m url params rs = expected_requests who m url params rs"
  using loop_requests_closed_form [OF assms, of params params who m url]
  by (simp add: expected_requests_def)

lemma get_paged_run:
  assumes "is_cloud config"
    and "select_client pat = (who, created)"
    and "rs \<noteq> []"
    and "\<forall>r\<in>set (butlast rs). has_token r"
    and "\<not> has_token (last rs)"
    and "fst (serve srv s (expected_requests who m url params rs)) = rs"
  shows "get_paged config srv m url params pat s =
           Some (created @ map Sent (expected_requests who m url params rs), Inr rs,
                 snd (serve srv s (expected_requests who m url params rs)))"
proof -
  note same = loop_requests_expected [OF assms(4), of who m url params]
  from assms(6) have "fst (serve srv s (loop_requests who m url params rs)) = rs"
    by (simp add: same)
  from paged_loop_follows [OF assms(3-5) this, of "[]" "[]"]
  show ?thesis
    by (simp add: get_paged_def assms(1,2) same)
qed

lemma expected_requests_length: "length (expected_requests who m url params rs) = length rs"
  by (cases rs) (simp_all add: expected_requests_def)

lemma make_request_parts [simp]:
  "request_issuer (make_request who m url d) = who"
  "request_method (make_request who m url d) = m"
  "request_url (make_request who m url d) = url"
  by (cases m; simp)+

lemma expected_requests_parts:
  assumes "q \<in> set (expected_requests who m url params rs)"
  shows "request_issuer q = who \<and> request_method q = m \<and> request_url q = url"
  using assms by (cases rs) (auto simp add: expected_requests_def)

lemma reissue_make_request [simp]:
  "reissue who' (make_request who m url d) = make_request who' m url d"
  by (cases m) simp_all

lemma paged_loop_only_so:
  assumes "paged_loop srv who m url cur sent acc s = Some y"
  shows "run_of srv who m url cur sent acc s y"
proof (rule paged_loop.raw_induct [where P = run_of, OF _ assms])
  fix loop :: "'a server \<Rightarrow> issuer \<Rightarrow> paged_method \<Rightarrow> string \<Rightarrow> py_dict \<Rightarrow> request list
      \<Rightarrow> py_dict list \<Rightarrow> 'a \<Rightarrow> (request list \<times> py_dict list \<times> 'a) option"
  fix srv who m url cur sent acc s y
  assume IH: "\<And>srv who m url cur sent acc s y.
      loop srv who m url cur sent acc s = Some y \<Longrightarrow> run_of srv who m url cur sent acc s y"
  assume body: "(let q = make_request who m url cur; (api_result, s') = srv s q
      in case map_of api_result ''nextPageToken'' of
           None \<Rightarrow> Some (sent @ [q], acc @ [api_result], s')
         | Some token \<Rightarrow>
             loop srv who m url (AList.update ''nextPageToken'' token cur)
               (sent @ [q]) (acc @ [api_result]) s') = Some y"
  let ?q = "make_request who m url cur"
  obtain r s1 where step: "srv s ?q = (r, s1)"
    by (cases "srv s ?q")
  show "run_of srv who m url cur sent acc s y"
  proof (cases "map_of r ''nextPageToken''")
    case None
    with body step have y: "y = (sent @ [?q], acc @ [r], s1)"
      by (simp add: Let_def)
    from None have "\<not> has_token r" by (simp add: has_token_def)
    with y step show ?thesis
      unfolding run_of_def
      by (intro exI [of _ "[r]"]) (simp add: Let_def)
  next
    case (Some token)
    let ?cur = "AList.update ''nextPageToken'' token cur"
    from Some body step have "loop srv who m url ?cur (sent @ [?q]) (acc @ [r]) s1 = Some y"
      by (simp add: Let_def)
    from IH [OF this] obtain rs where rs: "rs \<noteq> []"
      "\<forall>r\<in>set (butlast rs). has_token r" "\<not> has_token (last rs)"
      "fst (serve srv s1 (loop_requests who m url ?cur rs)) = rs"
      "y = ((sent @ [?q]) @ loop_requests who m url ?cur rs, (acc @ [r]) @ rs,
            snd (serve srv s1 (loop_requests who m url ?cur rs)))"
      unfolding run_of_def by blast
    from Some have next_params: "with_token_of r cur = ?cur"
      by (simp add: with_token_of_def)
    from Some have "has_token r" by (simp add: has_token_def)
    with rs step next_params show ?thesis
      unfolding run_of_def
      by (intro exI [of _ "r # rs"]) (simp add: Let_def case_prod_beta)
  qed
qed

lemma serve_reissued:
  assumes "issuer_blind srv"
  shows "serve srv s (map (reissue who) qs) = serve srv s qs"
proof (induction qs arbitrary: s)
  case Nil
  show ?case by simp
next
  case (Cons q qs)
  from assms have "srv s (reissue who q) = srv s q"
    by (simp add: issuer_blind_def)
  with Cons.IH show ?case by simp
qed

text \<open>
  C1. On Jira Cloud and without a PAT, for either method, any path and any initial
  dictionary: when the server answers the requests of the fetch with \<open>rs\<close>, a sequence of
  \<open>n \<ge> 1\<close> responses of which all but the last carry \<^verbatim>\<open>nextPageToken\<close>, \<^verbatim>\<open>get_paged\<close>
  returns, having issued exactly the \<open>n\<close> expected requests in order (the \<open>k\<close>-th with the
  initial dictionary plus the token of response \<open>k - 1\<close>), all to the same path and with
  the verb of the method (GET with query parameters, POST with a JSON body, never the
  other verb); it stops after the first response without a token and returns \<open>rs\<close>.
\<close>

theorem get_paged_follows_tokens:
  assumes "is_cloud config"
    and "rs \<noteq> []"
    and "\<forall>r\<in>set (butlast rs). has_token r"
    and "\<not> has_token (last rs)"
    and "fst (serve srv s (expected_requests Default_client m url params rs)) = rs"
  shows "get_paged config srv m url params None s =
           Some (map Sent (expected_requests Default_client m url params rs), Inr rs,
                 snd (serve srv s (expected_requests Default_client m url params rs))) \<and>
         length (expected_requests Default_client m url params rs) = length rs \<and>
         (\<forall>q\<in>set (expected_requests Default_client m url params rs).
            request_method q = m \<and> request_url q = url)"
proof -
  have "select_client None = (Default_client, [])"
    by (simp add: select_client_def)
  from get_paged_run [OF assms(1) this assms(2-5)]
  show ?thesis
    by (simp add: expected_requests_length expected_requests_parts)
qed

text \<open>The theorem on the three pages of the tests, for GET and for POST.\<close>

theorem get_paged_follows_tokens_witness:
  "get_paged cloud_config scripted Get ''/test/url'' [(''initial'', JString ''params'')] None
     test_pages =
     Some ([Sent (Get_request Default_client ''/test/url'' [(''initial'', JString ''params'')]),
            Sent (Get_request Default_client ''/test/url''
                    [(''initial'', JString ''params''), (''nextPageToken'', JString ''token1'')]),
            Sent (Get_request Default_client ''/test/url''
                    [(''initial'', JString ''params''), (''nextPageToken'', JString ''token2'')])],
           Inr test_pages, []) \<and>
   get_paged cloud_config scripted Post ''/test/url'' [(''initial'', JString ''params'')] None
     test_pages =
     Some ([Sent (Post_request Default_client ''/test/url'' [(''initial'', JString ''params'')]),
            Sent (Post_request Default_client ''/test/url''
                    [(''initial'', JString ''params''), (''nextPageToken'', JString ''token1'')]),
            Sent (Post_request Default_client ''/test/url''
                    [(''initial'', JString ''params''), (''nextPageToken'', JString ''token2'')])],
           Inr test_pages, [])"
proof -
  have cloud: "is_cloud cloud_config"
    by (simp add: cloud_config_def)
  have nonempty: "test_pages \<noteq> []"
    by (simp add: test_pages_def)
  have tokens: "\<forall>r\<in>set (butlast test_pages). has_token r"
    by (simp add: test_pages_def has_token_def)
  have final: "\<not> has_token (last test_pages)"
    by (simp add: test_pages_def has_token_def)
  have served: "fst (serve scripted test_pages
      (expected_requests Default_client m ''/test/url'' [(''initial'', JString ''params'')]
         test_pages)) = test_pages" for m
    by (simp add: test_pages_def expected_requests_def)
  show ?thesis
    using get_paged_follows_tokens [OF cloud nonempty tokens final served [of Get]]
      get_paged_follows_tokens [OF cloud nonempty tokens final served [of Post]]
    by (simp add: test_pages_def expected_requests_def with_token_of_def)
qed


subsection \<open>A per-request token\<close>

lemma reissue_expected_requests:
  "map (reissue who') (expected_requests who m url params rs) =
     expected_requests who' m url params rs"
  by (cases rs) (simp_all add: expected_requests_def)

lemma creations_of_run:
  "filter is_creation (Created_pat_client pat # map Sent qs) = [Created_pat_client pat]"
  by (induction qs) simp_all

text \<open>
  C2. On Jira Cloud with a non-empty PAT, for either method, any path and any initial
  dictionary: when the server answers the requests of the transient client with \<open>rs\<close>, a
  sequence of \<open>n \<ge> 1\<close> responses of which all but the last carry \<^verbatim>\<open>nextPageToken\<close>,
  \<^verbatim>\<open>get_paged\<close> returns \<open>rs\<close>; its events are the building of the transient client for
  that token, once and first, followed by the \<open>n\<close> requests of the loop, every one issued
  by that client and none by the default client; and when the server answers a request
  alike whoever issues it, the fetch without the PAT returns the same pages through the
  default client.
\<close>

theorem get_paged_uses_pat_client:
  assumes "is_cloud config"
    and "pat \<noteq> []"
    and "rs \<noteq> []"
    and "\<forall>r\<in>set (butlast rs). has_token r"
    and "\<not> has_token (last rs)"
    and "fst (serve srv s (expected_requests (Pat_client pat) m url params rs)) = rs"
  shows "get_paged config srv m url params (Some pat) s =
           Some (Created_pat_client pat
                   # map Sent (expected_requests (Pat_client pat) m url params rs),
                 Inr rs,
                 snd (serve srv s (expected_requests (Pat_client pat) m url params rs))) \<and>
         filter is_creation
           (Created_pat_client pat
              # map Sent (expected_requests (Pat_client pat) m url params rs)) =
           [Created_pat_client pat] \<and>
         length (expected_requests (Pat_client pat) m url params rs) = length rs \<and>
         (\<forall>q\<in>set (expected_requests (Pat_client pat) m url params rs).
            request_issuer q = Pat_client pat \<and> request_issuer q \<noteq> Default_client) \<and>
         (issuer_blind srv \<longrightarrow>
            get_paged config srv m url params None s =
              Some (map Sent (expected_requests Default_client m url params rs),
                    Inr rs,
                    snd (serve srv s (expected_requests (Pat_client pat) m url params rs))))"
proof -
  let ?by_pat = "expected_requests (Pat_client pat) m url params rs"
  let ?by_default = "expected_requests Default_client m url params rs"
  have chosen: "select_client (Some pat) = (Pat_client pat, [Created_pat_client pat])"
    using assms(2) by (simp add: select_client_def)
  have default: "select_client None = (Default_client, [])"
    by (simp add: select_client_def)
  note through_pat = get_paged_run [OF assms(1) chosen assms(3-6)]
  have through_default:
    "get_paged config srv m url params None s =
       Some (map Sent ?by_default, Inr rs, snd (serve srv s ?by_pat))"
    if blind: "issuer_blind srv"
  proof -
    have "serve srv s ?by_default = serve srv s (map (reissue Default_client) ?by_pat)"
      by (simp add: reissue_expected_requests)
    also have "\<dots> = serve srv s ?by_pat"
      by (rule serve_reissued [OF blind])
    finally have same: "serve srv s ?by_default = serve srv s ?by_pat" .
    with assms(6) have "fst (serve srv s ?by_default) = rs"
      by simp
    from get_paged_run [OF assms(1) default assms(3-5) this] same show ?thesis
      by simp
  qed
  have issued: "\<forall>q\<in>set ?by_pat.
      request_issuer q = Pat_client pat \<and> request_issuer q \<noteq> Default_client"
    by (simp add: expected_requests_parts)
  from through_pat through_default issued show ?thesis
    by (simp add: creations_of_run expected_requests_length)
qed

text \<open>
  The theorem on the three pages of the tests with the token of the tests: one creation,
  three requests of the transient client, and the same pages through the default client.
\<close>

theorem get_paged_uses_pat_client_witness:
  "issuer_blind scripted \<and>
   get_paged cloud_config scripted Get ''/test/url'' [(''initial'', JString ''params'')]
     (Some ''test_provided_pat'') test_pages =
     Some ([Created_pat_client ''test_provided_pat'',
            Sent (Get_request (Pat_client ''test_provided_pat'') ''/test/url''
                    [(''initial'', JString ''params'')]),
            Sent (Get_request (Pat_client ''test_provided_pat'') ''/test/url''
                    [(''initial'', JString ''params''), (''nextPageToken'', JString ''token1'')]),
            Sent (Get_request (Pat_client ''test_provided_pat'') ''/test/url''
                    [(''initial'', JString ''params''), (''nextPageToken'', JString ''token2'')])],
           Inr test_pages, []) \<and>
   get_paged cloud_config scripted Get ''/test/url'' [(''initial'', JString ''params'')]
     None test_pages =
     Some ([Sent (Get_request Default_client ''/test/url'' [(''initial'', JString ''params'')]),
            Sent (Get_request Default_client ''/test/url''
                    [(''initial'', JString ''params''), (''nextPageToken'', JString ''token1'')]),
            Sent (Get_request Default_client ''/test/url''
                    [(''initial'', JString ''params''), (''nextPageToken'', JString ''token2'')])],
           Inr test_pages, [])"
proof -
  have cloud: "is_cloud cloud_config"
    by (simp add: cloud_config_def)
  have given: "''test_provided_pat'' \<noteq> []"
    by simp
  have nonempty: "test_pages \<noteq> []"
    by (simp add: test_pages_def)
  have tokens: "\<forall>r\<in>set (butlast test_pages). has_token r"
    by (simp add: test_pages_def has_token_def)
  have final: "\<not> has_token (last test_pages)"
    by (simp add: test_pages_def has_token_def)
  have served: "fst (serve scripted test_pages
      (expected_requests (Pat_client ''test_provided_pat'') Get ''/test/url''
         [(''initial'', JString ''params'')] test_pages)) = test_pages"
    by (simp add: test_pages_def expected_requests_def)
  have blind: "issuer_blind scripted"
    unfolding issuer_blind_def
  proof (intro allI)
    fix s :: "py_dict list" and who q
    show "scripted s (reissue who q) = scripted s q"
      by (cases s) simp_all
  qed
  show ?thesis
    using get_paged_uses_pat_client [OF cloud given nonempty tokens final served] blind
    by (simp add: test_pages_def expected_requests_def with_token_of_def)
qed

end
